theory Spec2Isabelle
  imports Complex_Main "HOL-Library.Multiset"
begin

section \<open>Python values\<close>

text \<open>
  A Python exception, kept by the text that \<open>str(e)\<close> gives. Every fallible operation of
  the model returns \<open>exn + 'a\<close>, with \<open>Inl\<close> for a raised exception.
\<close>

datatype exn = Exception string

text \<open>
  A Python float (a latency, the clock's reading of \<open>time.time()\<close>) is modelled by the
  rational number it stands for. The double arithmetic of \<open>calculate_stats\<close> and of its
  query rounds as the hardware does, and is a parameter of the model (\<open>double_arith\<close>
  below); the product of the clock's reading and 1000 is taken as the exact product.
  \<open>py_int\<close> is \<open>int(x)\<close> on a float (truncation toward zero), \<open>py_round2\<close> is
  \<open>round(x, 2)\<close> (ties go to the even neighbour), \<open>truthy\<close> is the truth value of an
  optional float in a condition (\<open>None\<close> and \<open>0.0\<close> are false).
\<close>

definition py_int :: "rat \<Rightarrow> int" where
  "py_int x = (if 0 \<le> x then \<lfloor>x\<rfloor> else \<lceil>x\<rceil>)"

definition round_half_even :: "rat \<Rightarrow> int" where
  "round_half_even x =
     (let f = \<lfloor>x\<rfloor>; d = x - of_int f
      in if d < 1 / 2 then f
         else if 1 / 2 < d then f + 1
         else if even f then f else f + 1)"

definition py_round2 :: "rat \<Rightarrow> rat" where
  "py_round2 x = of_int (round_half_even (x * 100)) / 100"

fun truthy :: "rat option \<Rightarrow> bool" where
  "truthy None = False"
| "truthy (Some x) = (x \<noteq> 0)"

section \<open>Data model (models/schemas.py)\<close>

record PingResult =
  host :: string
  timestamp :: int
  latency :: "rat option"
  success :: bool
  error :: "string option"

record Host =
  host_id :: "int option"
  hostname :: string
  display_name :: string
  enabled :: bool
  created_at :: "int option"

section \<open>The database (config/database.py)\<close>

text \<open>
  The two tables of \<open>SCHEMA\<close>, a row per record, in rowid order, and the two
  AUTOINCREMENT counters. \<open>success\<close> and \<open>enabled\<close> are INTEGER columns.
\<close>

record ping_row =
  pr_id :: int
  pr_host :: string
  pr_timestamp :: int
  pr_latency :: "rat option"
  pr_success :: int
  pr_error :: "string option"

record host_row =
  h_id :: int
  h_hostname :: string
  h_display_name :: string
  h_enabled :: int
  h_created_at :: int

record store =
  ping_results :: "ping_row list"
  hosts :: "host_row list"
  ping_seq :: int
  host_seq :: int

text \<open>
  \<open>Database.execute_query\<close> and \<open>Database.execute_update\<close> open a connection of their
  own, run one statement and commit; on an exception \<open>get_connection\<close> rolls back and
  re-raises. The first argument is the fault of the storage at this call: \<open>None\<close> when it
  works, \<open>Some e\<close> when connecting, executing or committing raises \<open>e\<close>. A statement may
  also raise by itself (a constraint); either way the store is left as it was. Every call is
  a transaction of its own: what it commits stays committed whatever a later call does.
\<close>

definition execute_query :: "exn option \<Rightarrow> (store \<Rightarrow> 'a list) \<Rightarrow> store \<Rightarrow> exn + 'a list" where
  "execute_query fault query s = (case fault of Some e \<Rightarrow> Inl e | None \<Rightarrow> Inr (query s))"

definition execute_update ::
  "exn option \<Rightarrow> (store \<Rightarrow> exn + store \<times> int) \<Rightarrow> store \<Rightarrow> (exn + int) \<times> store" where
  "execute_update fault stmt s =
     (case fault of
        Some e \<Rightarrow> (Inl e, s)
      | None \<Rightarrow>
          (case stmt s of
             Inl e \<Rightarrow> (Inl e, s)
           | Inr (s', lastrowid) \<Rightarrow> (Inr lastrowid, s')))"

text \<open>\<open>Database.vacuum\<close>: VACUUM changes no row.\<close>

definition vacuum :: "exn option \<Rightarrow> store \<Rightarrow> (exn + unit) \<times> store" where
  "vacuum fault s = (case fault of Some e \<Rightarrow> (Inl e, s) | None \<Rightarrow> (Inr (), s))"

section \<open>The SQL statements of repositories/ping\_repository.py\<close>

text \<open>\<open>SELECT ... FROM hosts WHERE id = ?\<close>\<close>

definition sql_select_host_by_id :: "int \<Rightarrow> store \<Rightarrow> host_row list" where
  "sql_select_host_by_id i s = filter (\<lambda>h. h_id h = i) (hosts s)"

text \<open>\<open>SELECT ... FROM hosts WHERE hostname = ?\<close>\<close>

definition sql_select_host_by_hostname :: "string \<Rightarrow> store \<Rightarrow> host_row list" where
  "sql_select_host_by_hostname n s = filter (\<lambda>h. h_hostname h = n) (hosts s)"

text \<open>\<open>DELETE FROM ping_results WHERE host = ?\<close>; the row id it returns is not read.\<close>

definition sql_delete_pings_by_host :: "string \<Rightarrow> store \<Rightarrow> exn + store \<times> int" where
  "sql_delete_pings_by_host n s =
     Inr (s\<lparr>ping_results := filter (\<lambda>r. pr_host r \<noteq> n) (ping_results s)\<rparr>, 0)"

text \<open>\<open>DELETE FROM hosts WHERE id = ?\<close>\<close>

definition sql_delete_host_by_id :: "int \<Rightarrow> store \<Rightarrow> exn + store \<times> int" where
  "sql_delete_host_by_id i s =
     Inr (s\<lparr>hosts := filter (\<lambda>h. h_id h \<noteq> i) (hosts s)\<rparr>, 0)"

section \<open>PingRepository: hosts\<close>

definition host_of_row :: "host_row \<Rightarrow> Host" where
  "host_of_row row =
     \<lparr>host_id = Some (h_id row), hostname = h_hostname row,
      display_name = h_display_name row, enabled = (h_enabled row \<noteq> 0),
      created_at = Some (h_created_at row)\<rparr>"

definition get_host_by_id :: "exn option \<Rightarrow> int \<Rightarrow> store \<Rightarrow> exn + Host option" where
  "get_host_by_id fault i s =
     (case execute_query fault (sql_select_host_by_id i) s of
        Inl e \<Rightarrow> Inl e
      | Inr [] \<Rightarrow> Inr None
      | Inr (row # _) \<Rightarrow> Inr (Some (host_of_row row)))"

definition get_host_by_hostname :: "exn option \<Rightarrow> string \<Rightarrow> store \<Rightarrow> exn + Host option" where
  "get_host_by_hostname fault n s =
     (case execute_query fault (sql_select_host_by_hostname n) s of
        Inl e \<Rightarrow> Inl e
      | Inr [] \<Rightarrow> Inr None
      | Inr (row # _) \<Rightarrow> Inr (Some (host_of_row row)))"

text \<open>
  \<open>PingRepository.delete_host\<close>: a lookup and two updates, each a transaction of its own.
  \<open>f1\<close>, \<open>f2\<close>, \<open>f3\<close> are the faults of the storage at the three calls.
\<close>

definition delete_host ::
  "exn option \<Rightarrow> exn option \<Rightarrow> exn option \<Rightarrow> int \<Rightarrow> store \<Rightarrow> (exn + bool) \<times> store" where
  "delete_host f1 f2 f3 i s =
     (case get_host_by_id f1 i s of
        Inl e \<Rightarrow> (Inl e, s)
      | Inr None \<Rightarrow> (Inr False, s)
      | Inr (Some h) \<Rightarrow>
          (case execute_update f2 (sql_delete_pings_by_host (hostname h)) s of
             (Inl e, s1) \<Rightarrow> (Inl e, s1)
           | (Inr _, s1) \<Rightarrow>
               (case execute_update f3 (sql_delete_host_by_id i) s1 of
                  (Inl e, s2) \<Rightarrow> (Inl e, s2)
                | (Inr _, s2) \<Rightarrow> (Inr True, s2))))"

text \<open>What an observer of the store can see of a host and of its probe rows.\<close>

definition host_present :: "int \<Rightarrow> store \<Rightarrow> bool" where
  "host_present i s = (\<exists>h \<in> set (hosts s). h_id h = i)"

definition rows_of_host :: "string \<Rightarrow> store \<Rightarrow> ping_row list" where
  "rows_of_host n s = filter (\<lambda>r. pr_host r = n) (ping_results s)"

section \<open>PingRepository: probe rows\<close>

text \<open>\<open>INSERT INTO ping_results (host, timestamp, latency, success, error) VALUES (?, ?, ?, ?, ?)\<close>\<close>

definition sql_insert_ping ::
  "string \<Rightarrow> int \<Rightarrow> rat option \<Rightarrow> int \<Rightarrow> string option \<Rightarrow> store \<Rightarrow> exn + store \<times> int" where
  "sql_insert_ping h t l sc e s =
     (let rid = ping_seq s + 1
      in Inr (s\<lparr>ping_results := ping_results s @
                   [\<lparr>pr_id = rid, pr_host = h, pr_timestamp = t, pr_latency = l,
                     pr_success = sc, pr_error = e\<rparr>],
                 ping_seq := rid\<rparr>, rid))"

definition insert_ping_result :: "exn option \<Rightarrow> PingResult \<Rightarrow> store \<Rightarrow> (exn + unit) \<times> store" where
  "insert_ping_result fault result s =
     (case execute_update fault
             (sql_insert_ping (host result) (timestamp result) (latency result)
                (if success result then 1 else 0) (error result)) s of
        (Inl e, s') \<Rightarrow> (Inl e, s')
      | (Inr _, s') \<Rightarrow> (Inr (), s'))"

text \<open>
  \<open>LIMIT ?\<close>: SQLite reads a negative limit as no limit. \<open>ORDER BY timestamp ASC\<close> is
  modelled as a stable sort of the table in rowid order; SQL leaves the order of rows with
  equal timestamps open, and the theorems below do not depend on it.
\<close>

definition sql_limit :: "int \<Rightarrow> 'a list \<Rightarrow> 'a list" where
  "sql_limit n xs = (if n < 0 then xs else take (nat n) xs)"

definition in_window :: "string \<Rightarrow> int \<Rightarrow> int \<Rightarrow> ping_row \<Rightarrow> bool" where
  "in_window h start_time end_time r =
     (pr_host r = h \<and> start_time \<le> pr_timestamp r \<and> pr_timestamp r \<le> end_time)"

text \<open>
  \<open>SELECT host, timestamp, latency, success, error FROM ping_results
  WHERE host = ? AND timestamp BETWEEN ? AND ? ORDER BY timestamp ASC LIMIT ?\<close>
\<close>

definition sql_select_ping_data :: "string \<Rightarrow> int \<Rightarrow> int \<Rightarrow> int \<Rightarrow> store \<Rightarrow> ping_row list" where
  "sql_select_ping_data h start_time end_time limit s =
     sql_limit limit (sort_key pr_timestamp (filter (in_window h start_time end_time) (ping_results s)))"

definition ping_result_of_row :: "ping_row \<Rightarrow> PingResult" where
  "ping_result_of_row row =
     \<lparr>host = pr_host row, timestamp = pr_timestamp row, latency = pr_latency row,
      success = (pr_success row \<noteq> 0), error = pr_error row\<rparr>"

definition default_limit :: int where
  "default_limit = 1000"

definition get_ping_data ::
  "exn option \<Rightarrow> string \<Rightarrow> int \<Rightarrow> int \<Rightarrow> int \<Rightarrow> store \<Rightarrow> exn + PingResult list" where
  "get_ping_data fault h start_time end_time limit s =
     (case execute_query fault (sql_select_ping_data h start_time end_time limit) s of
        Inl e \<Rightarrow> Inl e
      | Inr rows \<Rightarrow> Inr (map ping_result_of_row rows))"

section \<open>PingRepository.add\_host and the route that calls it\<close>

text \<open>
  \<open>INSERT INTO hosts (hostname, display_name, enabled, created_at) VALUES (?, ?, 1, ?)\<close>,
  under the UNIQUE constraint on \<open>hostname\<close>; the new id is the AUTOINCREMENT counter's next.
\<close>

definition sql_insert_host :: "string \<Rightarrow> string \<Rightarrow> int \<Rightarrow> store \<Rightarrow> exn + store \<times> int" where
  "sql_insert_host n d c s =
     (if n \<in> set (map h_hostname (hosts s))
      then Inl (Exception ''UNIQUE constraint failed: hosts.hostname'')
      else (let rid = host_seq s + 1
            in Inr (s\<lparr>hosts := hosts s @
                         [\<lparr>h_id = rid, h_hostname = n, h_display_name = d, h_enabled = 1,
                           h_created_at = c\<rparr>],
                       host_seq := rid\<rparr>, rid)))"

text \<open>\<open>t\<close> is the reading of \<open>time.time()\<close>, in seconds.\<close>

definition add_host :: "exn option \<Rightarrow> rat \<Rightarrow> string \<Rightarrow> string \<Rightarrow> store \<Rightarrow> (exn + Host) \<times> store" where
  "add_host fault t n d s =
     (let c = py_int (t * 1000)
      in case execute_update fault (sql_insert_host n d c) s of
           (Inl e, s') \<Rightarrow> (Inl e, s')
         | (Inr rid, s') \<Rightarrow>
             (Inr \<lparr>host_id = Some rid, hostname = n, display_name = d, enabled = True,
                   created_at = Some c\<rparr>, s'))"

text \<open>
  The route \<open>add_host\<close> of routers/api.py: 409 when the hostname is there already, 500 on
  any other exception.
\<close>

datatype http_error = HTTPException int string

definition api_add_host ::
  "exn option \<Rightarrow> exn option \<Rightarrow> rat \<Rightarrow> string \<Rightarrow> string \<Rightarrow> store \<Rightarrow> (http_error + Host) \<times> store" where
  "api_add_host f1 f2 t n d s =
     (case get_host_by_hostname f1 n s of
        Inl e \<Rightarrow> (Inl (HTTPException 500 ''Failed to add host''), s)
      | Inr (Some existing) \<Rightarrow>
          (Inl (HTTPException 409 (''Host '' @ [CHR 0x27] @ n @ [CHR 0x27] @ '' already exists'')), s)
      | Inr None \<Rightarrow>
          (case add_host f2 t n d s of
             (Inl e, s') \<Rightarrow> (Inl (HTTPException 500 ''Failed to add host''), s')
           | (Inr h, s') \<Rightarrow> (Inr h, s')))"

text \<open>The UNIQUE constraint of the schema, as a property of a store.\<close>

definition hostname_unique :: "store \<Rightarrow> bool" where
  "hostname_unique s = distinct (map h_hostname (hosts s))"

section \<open>PingRepository.delete\_old\_pings\<close>

definition cutoff_time :: "rat \<Rightarrow> int \<Rightarrow> int" where
  "cutoff_time t retention_days = py_int ((t - of_int (retention_days * 24 * 60 * 60)) * 1000)"

text \<open>\<open>SELECT COUNT(*) as count FROM ping_results WHERE timestamp < ?\<close>\<close>

definition sql_count_old :: "int \<Rightarrow> store \<Rightarrow> int list" where
  "sql_count_old cutoff s = [int (length (filter (\<lambda>r. pr_timestamp r < cutoff) (ping_results s)))]"

text \<open>\<open>DELETE FROM ping_results WHERE timestamp < ?\<close>\<close>

definition sql_delete_old :: "int \<Rightarrow> store \<Rightarrow> exn + store \<times> int" where
  "sql_delete_old cutoff s =
     Inr (s\<lparr>ping_results := filter (\<lambda>r. \<not> pr_timestamp r < cutoff) (ping_results s)\<rparr>, 0)"

definition delete_old_pings ::
  "exn option \<Rightarrow> exn option \<Rightarrow> rat \<Rightarrow> int \<Rightarrow> store \<Rightarrow> (exn + int) \<times> store" where
  "delete_old_pings f1 f2 t retention_days s =
     (let cutoff = cutoff_time t retention_days
      in case execute_query f1 (sql_count_old cutoff) s of
           Inl e \<Rightarrow> (Inl e, s)
         | Inr result \<Rightarrow>
             (let count = (case result of [] \<Rightarrow> 0 | c # _ \<Rightarrow> c)
              in case execute_update f2 (sql_delete_old cutoff) s of
                   (Inl e, s') \<Rightarrow> (Inl e, s')
                 | (Inr _, s') \<Rightarrow> (Inr count, s')))"

section \<open>PingRepository.calculate\_stats\<close>

text \<open>
  The double arithmetic that \<open>calculate_stats\<close> and its query use: Python's \<open>/\<close> on two
  integers, Python's \<open>*\<close> on two floats, and SQLite's \<open>AVG\<close> of a list of values that is
  not empty. Each returns the double the hardware rounds to, so the model takes the three
  operations as given and fixes none of their results.
\<close>

record double_arith =
  d_truediv :: "int \<Rightarrow> int \<Rightarrow> rat"
  d_mul :: "rat \<Rightarrow> rat \<Rightarrow> rat"
  d_avg :: "rat list \<Rightarrow> rat"

text \<open>
  The aggregates of SQL skip NULL; over no value \<open>AVG\<close>, \<open>MIN\<close>, \<open>MAX\<close> and \<open>SUM\<close>
  are NULL. \<open>MIN\<close> and \<open>MAX\<close> pick one of the values, \<open>SUM\<close> is over integers here.
\<close>

definition sql_avg :: "double_arith \<Rightarrow> rat list \<Rightarrow> rat option" where
  "sql_avg fa xs = (if xs = [] then None else Some (d_avg fa xs))"

definition sql_min :: "rat list \<Rightarrow> rat option" where
  "sql_min xs = (case xs of [] \<Rightarrow> None | x # r \<Rightarrow> Some (fold min r x))"

definition sql_max :: "rat list \<Rightarrow> rat option" where
  "sql_max xs = (case xs of [] \<Rightarrow> None | x # r \<Rightarrow> Some (fold max r x))"

definition sql_sum :: "int list \<Rightarrow> int option" where
  "sql_sum xs = (if xs = [] then None else Some (sum_list xs))"

definition non_null :: "'a option list \<Rightarrow> 'a list" where
  "non_null xs = concat (map (\<lambda>v. case v of None \<Rightarrow> [] | Some x \<Rightarrow> [x]) xs)"

record stats_row =
  col_avg_latency :: "rat option"
  col_min_latency :: "rat option"
  col_max_latency :: "rat option"
  col_total_pings :: int
  col_successful_pings :: "int option"

text \<open>
  \<open>SELECT AVG(latency), MIN(latency), MAX(latency), COUNT(*),
  SUM(CASE WHEN success = 1 THEN 1 ELSE 0 END) FROM ping_results
  WHERE host = ? AND timestamp BETWEEN ? AND ?\<close>: always one row.
\<close>

definition sql_select_stats ::
  "double_arith \<Rightarrow> string \<Rightarrow> int \<Rightarrow> int \<Rightarrow> store \<Rightarrow> stats_row list" where
  "sql_select_stats fa h start_time end_time s =
     (let rows = filter (in_window h start_time end_time) (ping_results s);
          lats = non_null (map pr_latency rows)
      in [\<lparr>col_avg_latency = sql_avg fa lats, col_min_latency = sql_min lats,
            col_max_latency = sql_max lats, col_total_pings = int (length rows),
            col_successful_pings =
              sql_sum (map (\<lambda>r. if pr_success r = 1 then 1 else 0) rows)\<rparr>])"

record stats =
  avg_latency :: "rat option"
  min_latency :: "rat option"
  max_latency :: "rat option"
  success_rate :: rat

text \<open>\<open>round(v, 2) if v else None\<close>\<close>

definition round_if_truthy :: "rat option \<Rightarrow> rat option" where
  "round_if_truthy v = (if truthy v then Some (py_round2 (the v)) else None)"

definition no_stats :: stats where
  "no_stats = \<lparr>avg_latency = None, min_latency = None, max_latency = None, success_rate = 0\<rparr>"

definition calculate_stats ::
  "double_arith \<Rightarrow> exn option \<Rightarrow> string \<Rightarrow> int \<Rightarrow> int \<Rightarrow> store \<Rightarrow> exn + stats" where
  "calculate_stats fa fault h start_time end_time s =
     (case execute_query fault (sql_select_stats fa h start_time end_time) s of
        Inl e \<Rightarrow> Inl e
      | Inr [] \<Rightarrow> Inr no_stats
      | Inr (row # _) \<Rightarrow>
          (if col_total_pings row = 0 then Inr no_stats
           else (case col_successful_pings row of
                   None \<Rightarrow> Inl (Exception ''unsupported operand type(s) for /'')
                 | Some sp \<Rightarrow>
                     (let rate = (if col_total_pings row > 0
                                  then d_mul fa (d_truediv fa sp (col_total_pings row)) 100
                                  else 0)
                      in Inr \<lparr>avg_latency = round_if_truthy (col_avg_latency row),
                              min_latency = round_if_truthy (col_min_latency row),
                              max_latency = round_if_truthy (col_max_latency row),
                              success_rate = py_round2 rate\<rparr>))))"

text \<open>The rows of a window, their latencies that are not NULL, and the rows marked successful.\<close>

definition window_rows :: "string \<Rightarrow> int \<Rightarrow> int \<Rightarrow> store \<Rightarrow> ping_row list" where
  "window_rows h start_time end_time s = filter (in_window h start_time end_time) (ping_results s)"

definition window_latencies :: "string \<Rightarrow> int \<Rightarrow> int \<Rightarrow> store \<Rightarrow> rat list" where
  "window_latencies h start_time end_time s = non_null (map pr_latency (window_rows h start_time end_time s))"

definition successes :: "ping_row list \<Rightarrow> ping_row list" where
  "successes rows = filter (\<lambda>r. pr_success r = 1) rows"

section \<open>Settings (config/settings.py)\<close>

record settings =
  ping_interval :: int
  ping_timeout :: int
  ping_retries :: int
  retention_days :: int
  cleanup_hour :: int

definition default_settings :: settings where
  "default_settings =
     \<lparr>ping_interval = 60, ping_timeout = 5, ping_retries = 2, retention_days = 120,
      cleanup_hour = 2\<rparr>"

section \<open>PingService (services/ping\_service.py)\<close>

record PingService =
  timeout :: int
  retries :: int

text \<open>\<open>x or d\<close> on an optional integer: \<open>None\<close> and \<open>0\<close> give the default.\<close>

definition py_or :: "int option \<Rightarrow> int \<Rightarrow> int" where
  "py_or x d = (case x of None \<Rightarrow> d | Some v \<Rightarrow> if v = 0 then d else v)"

definition PingService_init :: "settings \<Rightarrow> int option \<Rightarrow> int option \<Rightarrow> PingService" where
  "PingService_init cfg timeout_arg retries_arg =
     \<lparr>timeout = py_or timeout_arg (ping_timeout cfg),
      retries = py_or retries_arg (ping_retries cfg)\<rparr>"

text \<open>
  The transport is \<open>pythonping.ping(host, count=1, timeout=..., verbose=False)\<close>: what the
  call number \<open>attempt\<close> for a host gives, either an exception or a response with its
  \<open>success()\<close> and its \<open>rtt_avg_ms\<close>.
\<close>

record response =
  resp_success :: bool
  rtt_avg_ms :: rat

type_synonym transport = "string \<Rightarrow> int \<Rightarrow> nat \<Rightarrow> exn + response"

text \<open>What a run of \<open>execute_ping\<close> did besides returning: its calls of the transport and of \<open>time.sleep(0.1)\<close>.\<close>

record ping_run =
  result :: PingResult
  attempts :: nat
  sleeps :: nat

definition str :: "exn \<Rightarrow> string" where
  "str e = (case e of Exception m \<Rightarrow> m)"

text \<open>
  The body of \<open>for attempt in range(self.retries + 1)\<close>, from index \<open>attempt\<close> with
  \<open>remaining\<close> indices left. \<open>None\<close>: the loop ran out without returning.
\<close>

fun attempt_loop ::
  "PingService \<Rightarrow> transport \<Rightarrow> string \<Rightarrow> int \<Rightarrow> nat \<Rightarrow> nat \<Rightarrow> PingResult option \<times> nat \<times> nat" where
  "attempt_loop svc ping h ts attempt 0 = (None, 0, 0)"
| "attempt_loop svc ping h ts attempt (Suc remaining) =
     (case ping h (timeout svc) attempt of
        Inr resp \<Rightarrow>
          (if resp_success resp
           then (Some \<lparr>host = h, timestamp = ts, latency = Some (py_round2 (rtt_avg_ms resp)),
                       success = True, error = None\<rparr>, 1, 0)
           else if int attempt < retries svc
           then (case attempt_loop svc ping h ts (Suc attempt) remaining of
                   (r, n, k) \<Rightarrow> (r, Suc n, k))
           else (Some \<lparr>host = h, timestamp = ts, latency = None, success = False,
                       error = Some ''Host unreachable or timeout''\<rparr>, 1, 0))
      | Inl e \<Rightarrow>
          (if int attempt < retries svc
           then (case attempt_loop svc ping h ts (Suc attempt) remaining of
                   (r, n, k) \<Rightarrow> (r, Suc n, Suc k))
           else (Some \<lparr>host = h, timestamp = ts, latency = None, success = False,
                       error = Some (str e)\<rparr>, 1, 0)))"

definition execute_ping :: "PingService \<Rightarrow> transport \<Rightarrow> rat \<Rightarrow> string \<Rightarrow> ping_run" where
  "execute_ping svc ping t h =
     (let ts = py_int (t * 1000)
      in case attempt_loop svc ping h ts 0 (nat (retries svc + 1)) of
           (Some r, n, k) \<Rightarrow> \<lparr>result = r, attempts = n, sleeps = k\<rparr>
         | (None, n, k) \<Rightarrow>
             \<lparr>result = \<lparr>host = h, timestamp = ts, latency = None, success = False,
                         error = Some ''Maximum retries exceeded''\<rparr>,
              attempts = n, sleeps = k\<rparr>)"

text \<open>A transport fails at a call when it raises or its response is not a success.\<close>

definition fails :: "exn + response \<Rightarrow> bool" where
  "fails x = (case x of Inl e \<Rightarrow> True | Inr resp \<Rightarrow> \<not> resp_success resp)"

definition soft_failure :: "exn + response \<Rightarrow> bool" where
  "soft_failure x = (case x of Inl e \<Rightarrow> False | Inr resp \<Rightarrow> \<not> resp_success resp)"

section \<open>CleanupService (services/cleanup\_service.py)\<close>

text \<open>A \<open>datetime\<close>, kept by what \<open>isoformat()\<close> gives.\<close>

datatype datetime = Datetime string

definition isoformat :: "datetime \<Rightarrow> string" where
  "isoformat d = (case d of Datetime x \<Rightarrow> x)"

record CleanupService =
  running :: bool
  last_cleanup :: "datetime option"
  last_vacuum :: "datetime option"

text \<open>The dictionaries the manual triggers return: keys in the order written.\<close>

datatype pyval = PyBool bool | PyInt int | PyStr string

type_synonym pydict = "(string \<times> pyval) list"

text \<open>
  \<open>t\<close> is the reading of \<open>time.time()\<close> inside \<open>delete_old_pings\<close>, \<open>now\<close> that of
  \<open>datetime.now()\<close>.
\<close>

definition cleanup_now ::
  "exn option \<Rightarrow> exn option \<Rightarrow> settings \<Rightarrow> rat \<Rightarrow> datetime \<Rightarrow> CleanupService \<Rightarrow> store
     \<Rightarrow> pydict \<times> CleanupService \<times> store" where
  "cleanup_now f1 f2 cfg t now svc s =
     (case delete_old_pings f1 f2 t (retention_days cfg) s of
        (Inr deleted_count, s') \<Rightarrow>
          ([(''success'', PyBool True), (''deleted_count'', PyInt deleted_count),
            (''timestamp'', PyStr (isoformat now))],
           svc\<lparr>last_cleanup := Some now\<rparr>, s')
      | (Inl e, s') \<Rightarrow>
          ([(''success'', PyBool False), (''error'', PyStr (str e)),
            (''deleted_count'', PyInt 0)],
           svc, s'))"

definition vacuum_now ::
  "exn option \<Rightarrow> datetime \<Rightarrow> CleanupService \<Rightarrow> store \<Rightarrow> pydict \<times> CleanupService \<times> store" where
  "vacuum_now fault now svc s =
     (case vacuum fault s of
        (Inr _, s') \<Rightarrow>
          ([(''success'', PyBool True), (''timestamp'', PyStr (isoformat now))],
           svc\<lparr>last_vacuum := Some now\<rparr>, s')
      | (Inl e, s') \<Rightarrow>
          ([(''success'', PyBool False), (''error'', PyStr (str e))], svc, s'))"

definition has_key :: "pydict \<Rightarrow> string \<Rightarrow> bool" where
  "has_key d k = (k \<in> set (map fst d))"

section \<open>Example states\<close>

definition c1_host :: host_row where
  "c1_host =
     \<lparr>h_id = 1, h_hostname = ''a'', h_display_name = ''A'', h_enabled = 1, h_created_at = 5\<rparr>"

definition c1_row :: ping_row where
  "c1_row =
     \<lparr>pr_id = 1, pr_host = ''a'', pr_timestamp = 7, pr_latency = None, pr_success = 0,
      pr_error = Some ''Host unreachable or timeout''\<rparr>"

definition c1_store :: store where
  "c1_store = \<lparr>ping_results = [c1_row], hosts = [c1_host], ping_seq = 1, host_seq = 1\<rparr>"

definition io_error :: exn where
  "io_error = Exception ''disk I/O error''"

definition c5_store :: store where
  "c5_store =
     \<lparr>ping_results =
        [\<lparr>pr_id = 1, pr_host = ''a'', pr_timestamp = 15, pr_latency = Some 2, pr_success = 1, pr_error = None\<rparr>,
         \<lparr>pr_id = 2, pr_host = ''b'', pr_timestamp = 10, pr_latency = None, pr_success = 0, pr_error = Some ''Host unreachable or timeout''\<rparr>,
         \<lparr>pr_id = 3, pr_host = ''a'', pr_timestamp = 5, pr_latency = Some 1, pr_success = 1, pr_error = None\<rparr>,
         \<lparr>pr_id = 4, pr_host = ''a'', pr_timestamp = 8, pr_latency = Some 3, pr_success = 1, pr_error = None\<rparr>],
      hosts = [], ping_seq = 4, host_seq = 0\<rparr>"

definition c5_result :: PingResult where
  "c5_result = \<lparr>host = ''a'', timestamp = 30, latency = Some (5 / 4), success = True, error = None\<rparr>"

definition c3_service :: PingService where
  "c3_service = \<lparr>timeout = 5, retries = 2\<rparr>"

definition silent :: transport where
  "silent h to attempt = Inr \<lparr>resp_success = False, rtt_avg_ms = 5000\<rparr>"

definition broken :: transport where
  "broken h to attempt = Inl (Exception ''Name or service not known'')"

definition c8_rtt :: rat where
  "c8_rtt = 123456 / 10000"

definition answers_third :: transport where
  "answers_third h to attempt =
     (if attempt = 2 then Inr \<lparr>resp_success = True, rtt_avg_ms = c8_rtt\<rparr>
      else Inr \<lparr>resp_success = False, rtt_avg_ms = 5000\<rparr>)"

definition c7_zero_store :: store where
  "c7_zero_store =
     \<lparr>ping_results =
        [\<lparr>pr_id = 1, pr_host = ''a'', pr_timestamp = 5, pr_latency = Some 0, pr_success = 1,
          pr_error = None\<rparr>],
      hosts = [], ping_seq = 1, host_seq = 0\<rparr>"

text \<open>
  An arithmetic for the examples: without rounding error. On the numbers of the examples
  (0, 1 and 100) double arithmetic has none either.
\<close>

definition exact_arith :: double_arith where
  "exact_arith =
     \<lparr>d_truediv = (\<lambda>a b. of_int a / of_int b), d_mul = (\<lambda>x y. x * y),
      d_avg = (\<lambda>xs. sum_list xs / of_nat (length xs))\<rparr>"

definition c9_service :: CleanupService where
  "c9_service = \<lparr>running = True, last_cleanup = None, last_vacuum = None\<rparr>"

definition c9_now :: datetime where
  "c9_now = Datetime ''2024-01-01T02:00:00''"

section \<open>Deleting a host\<close>

lemma get_host_by_id_cases:
  "get_host_by_id f i s =
     (case f of
        Some e \<Rightarrow> Inl e
      | None \<Rightarrow>
          (case sql_select_host_by_id i s of
             [] \<Rightarrow> Inr None
           | row # _ \<Rightarrow> Inr (Some (host_of_row row))))"
  by (simp add: get_host_by_id_def execute_query_def split: option.splits list.splits)

lemma host_present_select: "host_present i s \<longleftrightarrow> sql_select_host_by_id i s \<noteq> []"
  by (auto simp: host_present_def sql_select_host_by_id_def filter_empty_conv)

lemma hostname_host_of_row [simp]: "hostname (host_of_row row) = h_hostname row"
  by (simp add: host_of_row_def)

text \<open>
  C1, as the claim states it, fails: when the second update faults, the probe rows of the
  host are gone and the host row is still there, a state that is neither the old one nor
  the one with both gone.
\<close>

theorem delete_host_not_atomic:
  "\<not> (snd (delete_host None None (Some io_error) 1 c1_store) = c1_store
       \<or> (\<not> host_present 1 (snd (delete_host None None (Some io_error) 1 c1_store))
          \<and> rows_of_host ''a'' (snd (delete_host None None (Some io_error) 1 c1_store)) = []))"
  by (simp add: delete_host_def get_host_by_id_cases sql_select_host_by_id_def
      execute_update_def sql_delete_pings_by_host_def host_present_def rows_of_host_def
      c1_store_def c1_host_def c1_row_def)

text \<open>
  C1, amended: \<open>delete_host\<close> returns false, with the store unchanged, exactly when its
  lookup works and finds no host of that id. For a host that is there (\<open>row\<close>, the row the
  lookup finds), it commits two steps one after the other: when no call faults it returns
  true, and the probe rows of the hostname and the host rows of that id are gone, nothing
  else changed; when only the last update faults the probe rows are gone and the host row
  stays; when the lookup or the first update faults the store is unchanged. In no case is
  the host gone while probe rows of its hostname remain.
\<close>

theorem delete_host_two_commits:
  "(fst (delete_host f1 f2 f3 i s) = Inr False \<longleftrightarrow> f1 = None \<and> \<not> host_present i s)
   \<and> (\<not> host_present i s \<longrightarrow> snd (delete_host f1 f2 f3 i s) = s)
   \<and> (\<forall>row rest. sql_select_host_by_id i s = row # rest \<longrightarrow>
        (if f1 = None \<and> f2 = None \<and> f3 = None
         then delete_host f1 f2 f3 i s =
                (Inr True,
                 s\<lparr>ping_results := filter (\<lambda>r. pr_host r \<noteq> h_hostname row) (ping_results s),
                   hosts := filter (\<lambda>h. h_id h \<noteq> i) (hosts s)\<rparr>)
         else if f1 = None \<and> f2 = None
         then (\<exists>e. fst (delete_host f1 f2 f3 i s) = Inl e)
              \<and> snd (delete_host f1 f2 f3 i s) =
                  s\<lparr>ping_results := filter (\<lambda>r. pr_host r \<noteq> h_hostname row) (ping_results s)\<rparr>
         else (\<exists>e. fst (delete_host f1 f2 f3 i s) = Inl e)
              \<and> snd (delete_host f1 f2 f3 i s) = s)
        \<and> (host_present i (snd (delete_host f1 f2 f3 i s))
             \<or> rows_of_host (h_hostname row) (snd (delete_host f1 f2 f3 i s)) = []))"
  apply (intro conjI allI impI)
    apply (auto simp: delete_host_def get_host_by_id_cases host_present_select
      execute_update_def sql_delete_pings_by_host_def sql_delete_host_by_id_def
      rows_of_host_def split: option.splits list.splits)
  done

theorem delete_host_two_commits_witness:
  "sql_select_host_by_id 1 c1_store = [c1_host]
   \<and> delete_host None None None 1 c1_store =
       (Inr True, \<lparr>ping_results = [], hosts = [], ping_seq = 1, host_seq = 1\<rparr>)
   \<and> snd (delete_host None None (Some io_error) 1 c1_store) =
       \<lparr>ping_results = [], hosts = [c1_host], ping_seq = 1, host_seq = 1\<rparr>
   \<and> fst (delete_host None None None 2 c1_store) = Inr False
   \<and> snd (delete_host None None None 2 c1_store) = c1_store"
proof -
  have sel: "sql_select_host_by_id 1 c1_store = [c1_host]"
    by (simp add: sql_select_host_by_id_def c1_store_def c1_host_def)
  have absent: "\<not> host_present 2 c1_store"
    by (simp add: host_present_def c1_store_def c1_host_def)
  have ok: "delete_host None None None 1 c1_store =
      (Inr True, \<lparr>ping_results = [], hosts = [], ping_seq = 1, host_seq = 1\<rparr>)"
    using delete_host_two_commits [of None None None 1 c1_store] sel
    by (simp add: c1_store_def c1_host_def c1_row_def)
  have half: "snd (delete_host None None (Some io_error) 1 c1_store) =
      \<lparr>ping_results = [], hosts = [c1_host], ping_seq = 1, host_seq = 1\<rparr>"
    using delete_host_two_commits [of None None "Some io_error" 1 c1_store] sel
    by (simp add: c1_store_def c1_host_def c1_row_def)
  have none: "fst (delete_host None None None 2 c1_store) = Inr False
      \<and> snd (delete_host None None None 2 c1_store) = c1_store"
    using delete_host_two_commits [of None None None 2 c1_store] absent by simp
  show ?thesis using sel ok half none by simp
qed

section \<open>Retention\<close>

lemma cutoff_time_onto: "cutoff_time (of_int c / 1000) 0 = c"
  by (simp add: cutoff_time_def py_int_def)

lemma count_removed:
  "int (length (filter P xs)) = int (length xs) - int (length (filter (\<lambda>x. \<not> P x) xs))"
  using sum_length_filter_compl [of P xs] by simp

lemma delete_old_pings_ok:
  "delete_old_pings None None t d s =
     (Inr (int (length (filter (\<lambda>r. pr_timestamp r < cutoff_time t d) (ping_results s)))),
      s\<lparr>ping_results := filter (\<lambda>r. \<not> pr_timestamp r < cutoff_time t d) (ping_results s)\<rparr>)"
  by (simp add: delete_old_pings_def execute_query_def execute_update_def sql_count_old_def
      sql_delete_old_def Let_def)

text \<open>
  C2: with the storage working, \<open>delete_old_pings\<close> leaves exactly the rows whose timestamp
  is not below the cutoff (every other row is removed, no other row is touched), the count
  it returns is the number of rows the table lost, and a second call at the same cutoff
  returns 0 and changes nothing. Every integer is the cutoff of some clock reading
  (\<open>cutoff_time_onto\<close>).
\<close>

theorem delete_old_pings_exact:
  "snd (delete_old_pings None None t d s) =
       s\<lparr>ping_results := filter (\<lambda>r. \<not> pr_timestamp r < cutoff_time t d) (ping_results s)\<rparr>
   \<and> fst (delete_old_pings None None t d s) =
       Inr (int (length (ping_results s))
            - int (length (ping_results (snd (delete_old_pings None None t d s)))))
   \<and> delete_old_pings None None t d (snd (delete_old_pings None None t d s)) =
       (Inr 0, snd (delete_old_pings None None t d s))"
proof -
  let ?old = "\<lambda>r. pr_timestamp r < cutoff_time t d"
  let ?s' = "s\<lparr>ping_results := filter (\<lambda>r. \<not> ?old r) (ping_results s)\<rparr>"
  have run: "delete_old_pings None None t d s =
      (Inr (int (length (filter ?old (ping_results s)))), ?s')"
    by (rule delete_old_pings_ok)
  have again: "delete_old_pings None None t d ?s' = (Inr 0, ?s')"
    by (simp add: delete_old_pings_ok)
  have c1: "snd (delete_old_pings None None t d s) = ?s'"
    by (simp add: run)
  have c2: "fst (delete_old_pings None None t d s) =
      Inr (int (length (ping_results s)) - int (length (ping_results ?s')))"
    using count_removed [of ?old "ping_results s"] by (simp add: run)
  show ?thesis
    unfolding c1 using c2 again by (simp add: c1)
qed

section \<open>Inserting and querying probe rows\<close>

lemma timestamp_of_row: "map timestamp (map ping_result_of_row xs) = map pr_timestamp xs"
  by (simp add: ping_result_of_row_def)

lemma in_window_fun:
  "in_window h a b = (\<lambda>row. pr_host row = h \<and> a \<le> pr_timestamp row \<and> pr_timestamp row \<le> b)"
  by (rule ext) (simp add: in_window_def)

lemma get_ping_data_ok:
  "get_ping_data None h a b limit s =
     Inr (map ping_result_of_row (sql_select_ping_data h a b limit s))"
  by (simp add: get_ping_data_def execute_query_def)

lemma insert_ping_result_ok:
  "insert_ping_result None r s =
     (Inr (),
      s\<lparr>ping_results := ping_results s @
           [\<lparr>pr_id = ping_seq s + 1, pr_host = host r, pr_timestamp = timestamp r,
             pr_latency = latency r, pr_success = (if success r then 1 else 0),
             pr_error = error r\<rparr>],
        ping_seq := ping_seq s + 1\<rparr>)"
  by (simp add: insert_ping_result_def execute_update_def sql_insert_ping_def Let_def)

lemma row_round_trip:
  "ping_result_of_row
     \<lparr>pr_id = i, pr_host = host r, pr_timestamp = timestamp r, pr_latency = latency r,
      pr_success = (if success r then 1 else 0), pr_error = error r\<rparr> = (r :: PingResult)"
  by (simp add: ping_result_of_row_def)

text \<open>
  C5: with the storage working, \<open>get_ping_data\<close> with a limit that is not negative returns
  the first \<open>limit\<close> elements of a list that is sorted by timestamp and holds exactly the
  stored rows of the host whose timestamp \<open>t\<close> has \<open>start \<le> t \<le> end\<close> (as a multiset).
  And when the store holds no row of \<open>r\<close>'s host in the window from \<open>timestamp r - 1\<close> to
  \<open>timestamp r + 1\<close>, inserting \<open>r\<close> and then querying that window, with the default limit,
  returns exactly \<open>[r]\<close>.
\<close>

theorem insert_then_query_range:
  fixes r :: PingResult
  shows
  "(0 \<le> limit \<longrightarrow>
      (\<exists>ys. get_ping_data None h a b limit s = Inr (take (nat limit) ys)
         \<and> sorted (map timestamp ys)
         \<and> mset ys =
             mset (map ping_result_of_row
                    (filter (\<lambda>row. pr_host row = h \<and> a \<le> pr_timestamp row \<and> pr_timestamp row \<le> b)
                       (ping_results s)))))
   \<and> ((\<forall>row \<in> set (ping_results s).
          pr_host row = host r \<longrightarrow>
            pr_timestamp row < timestamp r - 1 \<or> timestamp r + 1 < pr_timestamp row) \<longrightarrow>
        fst (insert_ping_result None r s) = Inr ()
        \<and> get_ping_data None (host r) (timestamp r - 1) (timestamp r + 1) default_limit
              (snd (insert_ping_result None r s)) = Inr [r])"
proof (intro conjI impI)
  assume lim: "0 \<le> limit"
  let ?P = "\<lambda>row. pr_host row = h \<and> a \<le> pr_timestamp row \<and> pr_timestamp row \<le> b"
  let ?ys = "map ping_result_of_row (sort_key pr_timestamp (filter ?P (ping_results s)))"
  have "get_ping_data None h a b limit s = Inr (take (nat limit) ?ys)"
    using lim by (simp add: get_ping_data_ok sql_select_ping_data_def sql_limit_def in_window_fun take_map)
  moreover have "sorted (map timestamp ?ys)"
    by (simp only: timestamp_of_row sorted_sort_key)
  moreover have "mset ?ys = mset (map ping_result_of_row (filter ?P (ping_results s)))"
    by simp
  ultimately show "\<exists>ys. get_ping_data None h a b limit s = Inr (take (nat limit) ys)
         \<and> sorted (map timestamp ys)
         \<and> mset ys = mset (map ping_result_of_row (filter ?P (ping_results s)))"
    by blast
next
  assume alone: "\<forall>row \<in> set (ping_results s).
          pr_host row = host r \<longrightarrow>
            pr_timestamp row < timestamp r - 1 \<or> timestamp r + 1 < pr_timestamp row"
  show "fst (insert_ping_result None r s) = Inr ()"
    by (simp add: insert_ping_result_ok)
  have none: "filter (in_window (host r) (timestamp r - 1) (timestamp r + 1)) (ping_results s) = []"
    using alone by (auto simp: filter_empty_conv in_window_def)
  show "get_ping_data None (host r) (timestamp r - 1) (timestamp r + 1) default_limit
              (snd (insert_ping_result None r s)) = Inr [r]"
    by (simp add: insert_ping_result_ok get_ping_data_ok sql_select_ping_data_def none
        in_window_def [of _ _ _ "\<lparr>pr_id = _, pr_host = _, pr_timestamp = _, pr_latency = _, pr_success = _, pr_error = _\<rparr>"]
        sql_limit_def default_limit_def row_round_trip)
qed

theorem insert_then_query_range_witness:
  "(0::int) \<le> 2
   \<and> get_ping_data None ''a'' 0 20 2 c5_store =
       Inr [\<lparr>host = ''a'', timestamp = 5, latency = Some 1, success = True, error = None\<rparr>,
            \<lparr>host = ''a'', timestamp = 8, latency = Some 3, success = True, error = None\<rparr>]
   \<and> get_ping_data None ''a'' 29 31 default_limit (snd (insert_ping_result None c5_result c5_store)) =
       Inr [c5_result]"
proof -
  have alone: "\<forall>row \<in> set (ping_results c5_store).
          pr_host row = host c5_result \<longrightarrow>
            pr_timestamp row < timestamp c5_result - 1 \<or> timestamp c5_result + 1 < pr_timestamp row"
    by (simp add: c5_store_def c5_result_def)
  have trip: "get_ping_data None ''a'' 29 31 default_limit (snd (insert_ping_result None c5_result c5_store)) =
       Inr [c5_result]"
    using insert_then_query_range [of 2 "''a''" 0 20 c5_store c5_result] alone
    by (simp add: c5_result_def)
  have q: "get_ping_data None ''a'' 0 20 2 c5_store =
       Inr [\<lparr>host = ''a'', timestamp = 5, latency = Some 1, success = True, error = None\<rparr>,
            \<lparr>host = ''a'', timestamp = 8, latency = Some 3, success = True, error = None\<rparr>]"
    by (simp add: get_ping_data_ok sql_select_ping_data_def sql_limit_def in_window_def
        ping_result_of_row_def c5_store_def)
  show ?thesis using trip q by simp
qed

section \<open>Adding a host\<close>

lemma hostname_lookup_empty:
  "sql_select_host_by_hostname n s = [] \<longleftrightarrow> n \<notin> set (map h_hostname (hosts s))"
  by (auto simp: sql_select_host_by_hostname_def filter_empty_conv)

lemma api_add_host_ok:
  "api_add_host None None t n d s =
     (if n \<in> set (map h_hostname (hosts s))
      then (Inl (HTTPException 409 (''Host '' @ [CHR 0x27] @ n @ [CHR 0x27] @ '' already exists'')), s)
      else (Inr \<lparr>host_id = Some (host_seq s + 1), hostname = n, display_name = d, enabled = True,
                 created_at = Some (py_int (t * 1000))\<rparr>,
            s\<lparr>hosts := hosts s @
                 [\<lparr>h_id = host_seq s + 1, h_hostname = n, h_display_name = d, h_enabled = 1,
                   h_created_at = py_int (t * 1000)\<rparr>],
              host_seq := host_seq s + 1\<rparr>))"
proof (cases "sql_select_host_by_hostname n s")
  case Nil
  then have "n \<notin> set (map h_hostname (hosts s))"
    by (simp add: hostname_lookup_empty)
  then show ?thesis
    using Nil
    by (simp add: api_add_host_def get_host_by_hostname_def execute_query_def add_host_def
        execute_update_def sql_insert_host_def Let_def)
next
  case (Cons row rest)
  then have "n \<in> set (map h_hostname (hosts s))"
    using hostname_lookup_empty [of n s] by simp
  then show ?thesis
    using Cons
    by (simp add: api_add_host_def get_host_by_hostname_def execute_query_def)
qed

lemma one_row_of_distinct:
  "distinct (map f xs) \<Longrightarrow> n \<in> set (map f xs) \<Longrightarrow> length (filter (\<lambda>x. f x = n) xs) = 1"
proof (induction xs)
  case Nil
  then show ?case by simp
next
  case (Cons x xs)
  show ?case
  proof (cases "f x = n")
    case True
    then have "filter (\<lambda>x. f x = n) xs = []"
      using Cons.prems by (force simp: filter_empty_conv image_iff)
    then show ?thesis using True by simp
  next
    case False
    then show ?thesis using Cons by auto
  qed
qed

lemma no_row_of_absent:
  "n \<notin> set (map f xs) \<Longrightarrow> filter (\<lambda>x. f x = n) xs = []"
  by (auto simp: filter_empty_conv)

text \<open>
  C6: on a store whose hostnames are unique (the schema's UNIQUE constraint) and with the
  storage working, after \<open>add_host\<close> was called with a hostname, a second call with that
  hostname fails with status 409 and the store holds exactly one host of that hostname.
  When the hostname was not there, the first call returns the new host with
  \<open>enabled = True\<close> and \<open>created_at\<close> the clock's reading in milliseconds, and stores the
  row with \<open>enabled = 1\<close> and that \<open>created_at\<close>.
\<close>

theorem add_host_twice:
  assumes uniq: "hostname_unique s"
  shows
  "fst (api_add_host None None t2 n d2 (snd (api_add_host None None t1 n d1 s))) =
       Inl (HTTPException 409 (''Host '' @ [CHR 0x27] @ n @ [CHR 0x27] @ '' already exists''))
   \<and> length (filter (\<lambda>h. h_hostname h = n)
        (hosts (snd (api_add_host None None t2 n d2 (snd (api_add_host None None t1 n d1 s)))))) = 1
   \<and> (n \<notin> set (map h_hostname (hosts s)) \<longrightarrow>
        fst (api_add_host None None t1 n d1 s) =
          Inr \<lparr>host_id = Some (host_seq s + 1), hostname = n, display_name = d1, enabled = True,
                created_at = Some (py_int (t1 * 1000))\<rparr>
        \<and> hosts (snd (api_add_host None None t1 n d1 s)) =
            hosts s @ [\<lparr>h_id = host_seq s + 1, h_hostname = n, h_display_name = d1,
                         h_enabled = 1, h_created_at = py_int (t1 * 1000)\<rparr>])"
proof (cases "n \<in> set (map h_hostname (hosts s))")
  case True
  have "length (filter (\<lambda>h. h_hostname h = n) (hosts s)) = 1"
    using uniq True unfolding hostname_unique_def by (rule one_row_of_distinct)
  then show ?thesis using True by (simp add: api_add_host_ok)
next
  case False
  have "filter (\<lambda>h. h_hostname h = n) (hosts s) = []"
    using False by (rule no_row_of_absent)
  then show ?thesis using False by (simp add: api_add_host_ok)
qed

theorem add_host_twice_witness:
  "hostname_unique c1_store
   \<and> fst (api_add_host None None 2 ''b'' ''B2''
            (snd (api_add_host None None (17 / 10) ''b'' ''B'' c1_store))) =
       Inl (HTTPException 409 (''Host '' @ [CHR 0x27] @ ''b'' @ [CHR 0x27] @ '' already exists''))
   \<and> length (filter (\<lambda>h. h_hostname h = ''b'')
        (hosts (snd (api_add_host None None 2 ''b'' ''B2''
            (snd (api_add_host None None (17 / 10) ''b'' ''B'' c1_store)))))) = 1
   \<and> fst (api_add_host None None (17 / 10) ''b'' ''B'' c1_store) =
       Inr \<lparr>host_id = Some 2, hostname = ''b'', display_name = ''B'', enabled = True,
             created_at = Some 1700\<rparr>"
proof -
  have uniq: "hostname_unique c1_store"
    by (simp add: hostname_unique_def c1_store_def)
  have fresh: "''b'' \<notin> set (map h_hostname (hosts c1_store))"
    by (simp add: c1_store_def c1_host_def)
  have ms: "py_int 1700 = 1700"
    by (simp add: py_int_def)
  have seq: "host_seq c1_store + 1 = 2"
    by (simp add: c1_store_def)
  show ?thesis
    using add_host_twice [OF uniq, of 2 "''b''" "''B2''" "17 / 10" "''B''"] uniq fresh
    by (simp add: ms seq)
qed

section \<open>Executing a probe\<close>

lemma attempt_loop_le:
  "attempt_loop svc ping h ts a m = (r, n, k) \<Longrightarrow> n \<le> m"
proof (induction m arbitrary: a r n k)
  case 0
  then show ?case by simp
next
  case (Suc m)
  then show ?case
    by (auto split: sum.splits if_splits prod.splits)
qed

lemma attempt_loop_invariant:
  "attempt_loop svc ping h ts a m = (Some res, n, k) \<Longrightarrow>
     (if success res then latency res \<noteq> None else latency res = None \<and> error res \<noteq> None)"
proof (induction m arbitrary: a n k)
  case 0
  then show ?case by simp
next
  case (Suc m)
  then show ?case
    by (auto split: sum.splits if_splits prod.splits)
qed

lemma attempt_loop_all_fail:
  assumes "\<forall>j. a \<le> j \<and> j < a + m \<longrightarrow> fails (ping h (timeout svc) j)"
    and "int a + int m = retries svc + 1" and "0 < m"
  shows "\<exists>res k. attempt_loop svc ping h ts a m = (Some res, m, k)
            \<and> \<not> success res \<and> error res \<noteq> None"
  using assms
proof (induction m arbitrary: a)
  case 0
  then show ?case by simp
next
  case (Suc m)
  have here: "fails (ping h (timeout svc) a)"
    using Suc.prems(1) by simp
  show ?case
  proof (cases "m = 0")
    case True
    then have last: "\<not> int a < retries svc"
      using Suc.prems(2) by simp
    show ?thesis
      using here last True by (auto simp: fails_def split: sum.splits)
  next
    case False
    then have more: "int a < retries svc"
      using Suc.prems(2) by simp
    have "\<exists>res k. attempt_loop svc ping h ts (Suc a) m = (Some res, m, k)
            \<and> \<not> success res \<and> error res \<noteq> None"
      using Suc.prems False by (intro Suc.IH) auto
    then show ?thesis
      using here more by (auto simp: fails_def split: sum.splits)
  qed
qed

lemma attempt_loop_all_soft:
  assumes "\<forall>j. a \<le> j \<and> j < a + m \<longrightarrow> soft_failure (ping h (timeout svc) j)"
    and "int a + int m = retries svc + 1" and "0 < m"
  shows "attempt_loop svc ping h ts a m =
           (Some \<lparr>host = h, timestamp = ts, latency = None, success = False,
                   error = Some ''Host unreachable or timeout''\<rparr>, m, 0)"
  using assms
proof (induction m arbitrary: a)
  case 0
  then show ?case by simp
next
  case (Suc m)
  have here: "soft_failure (ping h (timeout svc) a)"
    using Suc.prems(1) by simp
  show ?case
  proof (cases "m = 0")
    case True
    then have last: "\<not> int a < retries svc"
      using Suc.prems(2) by simp
    show ?thesis
      using here last True by (auto simp: soft_failure_def split: sum.splits)
  next
    case False
    then have more: "int a < retries svc"
      using Suc.prems(2) by simp
    have "attempt_loop svc ping h ts (Suc a) m =
           (Some \<lparr>host = h, timestamp = ts, latency = None, success = False,
                   error = Some ''Host unreachable or timeout''\<rparr>, m, 0)"
      using Suc.prems False by (intro Suc.IH) auto
    then show ?thesis
      using here more by (auto simp: soft_failure_def split: sum.splits)
  qed
qed

lemma three: "nat (retries c3_service + 1) = Suc (Suc (Suc 0))"
  by (simp add: c3_service_def)

lemma run_silent:
  "execute_ping c3_service silent 17 ''a'' =
     \<lparr>result = \<lparr>host = ''a'', timestamp = 17000, latency = None, success = False,
                 error = Some ''Host unreachable or timeout''\<rparr>,
      attempts = 3, sleeps = 0\<rparr>"
  by (simp add: execute_ping_def three py_int_def silent_def) (simp add: c3_service_def)

lemma run_broken:
  "execute_ping c3_service broken 17 ''a'' =
     \<lparr>result = \<lparr>host = ''a'', timestamp = 17000, latency = None, success = False,
                 error = Some ''Name or service not known''\<rparr>,
      attempts = 3, sleeps = 2\<rparr>"
  by (simp add: execute_ping_def three py_int_def broken_def str_def) (simp add: c3_service_def)

lemma r2: "py_round2 c8_rtt = 247 / 20"
  by code_simp

lemma run_third:
  "execute_ping c3_service answers_third 17 ''a'' =
     \<lparr>result = \<lparr>host = ''a'', timestamp = 17000, latency = Some (247 / 20), success = True,
                 error = None\<rparr>,
      attempts = 3, sleeps = 0\<rparr>"
  by (simp add: execute_ping_def three py_int_def answers_third_def r2) (simp add: c3_service_def)

text \<open>
  The constructor reads \<open>retries or settings.ping_retries\<close>: an explicit \<open>retries=0\<close> is
  replaced by the setting, while a setting of 0 is kept. The theorems below are about
  \<open>self.retries\<close>, the value \<open>execute_ping\<close> reads.
\<close>

lemma init_zero_retries:
  "retries (PingService_init default_settings None (Some 0)) = 2
   \<and> retries (PingService_init default_settings None None) = 2
   \<and> retries (PingService_init (default_settings\<lparr>ping_retries := 0\<rparr>) None None) = 0"
  by (simp add: PingService_init_def py_or_def default_settings_def)

text \<open>
  C8: whatever the transport does and whatever \<open>retries\<close> is, the result of
  \<open>execute_ping\<close> has a latency when it is a success, and has no latency and an error
  text when it is a failure.
\<close>

theorem execute_ping_invariant:
  "(success (result (execute_ping svc ping t h)) \<longrightarrow>
      latency (result (execute_ping svc ping t h)) \<noteq> None)
   \<and> (\<not> success (result (execute_ping svc ping t h)) \<longrightarrow>
      latency (result (execute_ping svc ping t h)) = None
      \<and> error (result (execute_ping svc ping t h)) \<noteq> None)"
proof -
  obtain r n k where run: "attempt_loop svc ping h (py_int (t * 1000)) 0 (nat (retries svc + 1)) = (r, n, k)"
    by (cases "attempt_loop svc ping h (py_int (t * 1000)) 0 (nat (retries svc + 1))") auto
  show ?thesis
  proof (cases r)
    case None
    then show ?thesis using run by (simp add: execute_ping_def)
  next
    case (Some res)
    then show ?thesis
      using run attempt_loop_invariant [of svc ping h "py_int (t * 1000)" 0 "nat (retries svc + 1)" res n k]
      by (auto simp: execute_ping_def split: if_splits)
  qed
qed

theorem execute_ping_invariant_witness:
  "success (result (execute_ping c3_service answers_third 17 ''a''))
   \<and> latency (result (execute_ping c3_service answers_third 17 ''a'')) = Some (247 / 20)
   \<and> \<not> success (result (execute_ping c3_service broken 17 ''a''))
   \<and> latency (result (execute_ping c3_service broken 17 ''a'')) = None
   \<and> error (result (execute_ping c3_service broken 17 ''a'')) = Some ''Name or service not known''"
  using execute_ping_invariant [of c3_service answers_third 17 "''a''"]
    execute_ping_invariant [of c3_service broken 17 "''a''"]
  by (simp add: run_third run_broken)

text \<open>
  C4: for \<open>retries \<ge> 0\<close>, \<open>execute_ping\<close> calls the transport at most \<open>retries + 1\<close>
  times; when every one of the calls \<open>0 .. retries\<close> fails (raises, or answers without
  success) it calls it exactly \<open>retries + 1\<close> times (3 times for \<open>retries = 2\<close>) and returns
  a failure whose error is not null.
\<close>

theorem execute_ping_attempts:
  assumes "0 \<le> retries svc"
  shows "int (attempts (execute_ping svc ping t h)) \<le> retries svc + 1
   \<and> ((\<forall>j. int j \<le> retries svc \<longrightarrow> fails (ping h (timeout svc) j)) \<longrightarrow>
        int (attempts (execute_ping svc ping t h)) = retries svc + 1
        \<and> \<not> success (result (execute_ping svc ping t h))
        \<and> error (result (execute_ping svc ping t h)) \<noteq> None)"
proof (intro conjI impI)
  obtain r n k where run: "attempt_loop svc ping h (py_int (t * 1000)) 0 (nat (retries svc + 1)) = (r, n, k)"
    by (cases "attempt_loop svc ping h (py_int (t * 1000)) 0 (nat (retries svc + 1))") auto
  have "n \<le> nat (retries svc + 1)"
    using run by (rule attempt_loop_le)
  moreover have "attempts (execute_ping svc ping t h) = n"
    using run by (simp add: execute_ping_def split: option.splits)
  ultimately show "int (attempts (execute_ping svc ping t h)) \<le> retries svc + 1"
    using assms by simp
next
  assume bad: "\<forall>j. int j \<le> retries svc \<longrightarrow> fails (ping h (timeout svc) j)"
  have "\<exists>res k. attempt_loop svc ping h (py_int (t * 1000)) 0 (nat (retries svc + 1)) =
            (Some res, nat (retries svc + 1), k) \<and> \<not> success res \<and> error res \<noteq> None"
    using bad assms by (intro attempt_loop_all_fail) auto
  then obtain res k where run: "attempt_loop svc ping h (py_int (t * 1000)) 0 (nat (retries svc + 1)) =
            (Some res, nat (retries svc + 1), k)" and res: "\<not> success res" "error res \<noteq> None"
    by blast
  show "int (attempts (execute_ping svc ping t h)) = retries svc + 1"
    using run assms by (simp add: execute_ping_def)
  show "\<not> success (result (execute_ping svc ping t h))"
    using run res by (simp add: execute_ping_def)
  show "error (result (execute_ping svc ping t h)) \<noteq> None"
    using run res by (simp add: execute_ping_def)
qed

theorem execute_ping_attempts_witness:
  "0 \<le> retries c3_service
   \<and> retries c3_service = 2
   \<and> fails (broken ''a'' (timeout c3_service) 0)
   \<and> int (attempts (execute_ping c3_service broken 17 ''a'')) = 3
   \<and> \<not> success (result (execute_ping c3_service broken 17 ''a''))
   \<and> error (result (execute_ping c3_service broken 17 ''a'')) \<noteq> None"
proof -
  have r: "0 \<le> retries c3_service"
    by (simp add: c3_service_def)
  have bad: "\<forall>j. int j \<le> retries c3_service \<longrightarrow> fails (broken ''a'' (timeout c3_service) j)"
    by (simp add: fails_def broken_def)
  have two: "retries c3_service = 2"
    by (simp add: c3_service_def)
  show ?thesis
    using execute_ping_attempts [of c3_service broken 17 "''a''"] bad r by (simp add: two)
qed

text \<open>
  C3, as the claim states it, fails: after three soft failures with \<open>retries = 2\<close> the
  error text is not \<open>unreachable or timeout\<close>.
\<close>

theorem soft_failure_text_counterexample:
  "soft_failure (silent ''a'' (timeout c3_service) 0)
   \<and> soft_failure (silent ''a'' (timeout c3_service) 1)
   \<and> soft_failure (silent ''a'' (timeout c3_service) 2)
   \<and> attempts (execute_ping c3_service silent 17 ''a'') = 3
   \<and> success (result (execute_ping c3_service silent 17 ''a'')) = False
   \<and> error (result (execute_ping c3_service silent 17 ''a'')) \<noteq> Some ''unreachable or timeout''"
  by (simp add: run_silent) (simp add: soft_failure_def silent_def)

text \<open>
  C3, amended: for \<open>retries \<ge> 0\<close>, when every one of the calls \<open>0 .. retries\<close> answers
  without success and without an exception, \<open>execute_ping\<close> returns a failure for the host,
  at the timestamp taken before the first attempt, with no latency and with the error text
  \<open>Host unreachable or timeout\<close>.
\<close>

theorem execute_ping_soft_exhausted:
  assumes "0 \<le> retries svc"
    and "\<forall>j. int j \<le> retries svc \<longrightarrow> soft_failure (ping h (timeout svc) j)"
  shows "result (execute_ping svc ping t h) =
           \<lparr>host = h, timestamp = py_int (t * 1000), latency = None, success = False,
            error = Some ''Host unreachable or timeout''\<rparr>"
proof -
  have "attempt_loop svc ping h (py_int (t * 1000)) 0 (nat (retries svc + 1)) =
           (Some \<lparr>host = h, timestamp = py_int (t * 1000), latency = None, success = False,
                   error = Some ''Host unreachable or timeout''\<rparr>, nat (retries svc + 1), 0)"
    using assms by (intro attempt_loop_all_soft) auto
  then show ?thesis by (simp add: execute_ping_def)
qed

theorem execute_ping_soft_exhausted_witness:
  "0 \<le> retries c3_service
   \<and> soft_failure (silent ''a'' (timeout c3_service) 0)
   \<and> result (execute_ping c3_service silent 17 ''a'') =
       \<lparr>host = ''a'', timestamp = 17000, latency = None, success = False,
        error = Some ''Host unreachable or timeout''\<rparr>"
proof -
  have r: "0 \<le> retries c3_service"
    by (simp add: c3_service_def)
  have soft: "\<forall>j. int j \<le> retries c3_service \<longrightarrow> soft_failure (silent ''a'' (timeout c3_service) j)"
    by (simp add: soft_failure_def silent_def)
  have ms: "py_int 17000 = 17000"
    by (simp add: py_int_def)
  show ?thesis
    using execute_ping_soft_exhausted [of c3_service silent "''a''" 17] r soft by (simp add: ms)
qed

section \<open>Window statistics\<close>

lemma count_successes:
  "sum_list (map (\<lambda>r. if pr_success r = 1 then 1 else 0) rows) = int (length (successes rows))"
  by (induction rows) (simp_all add: successes_def)

lemma round_if_truthy_simps:
  "round_if_truthy None = None"
  "round_if_truthy (Some x) = (if x = 0 then None else Some (py_round2 x))"
  by (simp_all add: round_if_truthy_def)

lemma calculate_stats_rows:
  "window_rows h a b s \<noteq> [] \<Longrightarrow>
     calculate_stats fa None h a b s =
       Inr \<lparr>avg_latency = round_if_truthy (sql_avg fa (window_latencies h a b s)),
            min_latency = round_if_truthy (sql_min (window_latencies h a b s)),
            max_latency = round_if_truthy (sql_max (window_latencies h a b s)),
            success_rate =
              py_round2 (d_mul fa
                (d_truediv fa (int (length (successes (window_rows h a b s))))
                   (int (length (window_rows h a b s)))) 100)\<rparr>"
  by (simp add: calculate_stats_def execute_query_def sql_select_stats_def window_rows_def
      window_latencies_def Let_def sql_sum_def count_successes)

lemma c7_zero_rows:
  "window_rows ''a'' 0 10 c7_zero_store =
     [\<lparr>pr_id = 1, pr_host = ''a'', pr_timestamp = 5, pr_latency = Some 0, pr_success = 1,
       pr_error = None\<rparr>]"
  by (simp add: window_rows_def in_window_def c7_zero_store_def)

lemma c7_zero_lats: "window_latencies ''a'' 0 10 c7_zero_store = [0]"
  by (simp add: window_latencies_def c7_zero_rows non_null_def)

text \<open>
  C7: the code at the failing input. The window holds one row, a success with latency
  0.0, so the minimum and the maximum over the successful rows are 0.0; whatever the
  double arithmetic does, \<open>calculate_stats\<close> returns null for both.
\<close>

theorem zero_latency_min_max_null:
  "length (window_rows ''a'' 0 10 c7_zero_store) = 1
   \<and> length (successes (window_rows ''a'' 0 10 c7_zero_store)) = 1
   \<and> sql_min (non_null (map pr_latency (successes (window_rows ''a'' 0 10 c7_zero_store)))) = Some 0
   \<and> sql_max (non_null (map pr_latency (successes (window_rows ''a'' 0 10 c7_zero_store)))) = Some 0
   \<and> (\<exists>st. calculate_stats fa None ''a'' 0 10 c7_zero_store = Inr st
         \<and> min_latency st = None \<and> max_latency st = None)"
proof -
  have some: "window_rows ''a'' 0 10 c7_zero_store \<noteq> []"
    by (simp add: c7_zero_rows)
  have "\<exists>st. calculate_stats fa None ''a'' 0 10 c7_zero_store = Inr st
         \<and> min_latency st = None \<and> max_latency st = None"
    by (simp add: calculate_stats_rows [OF some] c7_zero_lats sql_min_def sql_max_def
        round_if_truthy_simps)
  then show ?thesis
    by (simp add: c7_zero_rows successes_def non_null_def sql_min_def sql_max_def)
qed

text \<open>
  C10: over any window that is not empty, and whatever the double arithmetic does, a
  latency field whose aggregate (average, minimum, maximum over the latencies that are not
  null) is 0.0 is returned as null, not as 0.0. The witness is a window with one row, a
  success with latency 0.0.
\<close>

theorem zero_aggregate_is_null:
  assumes "window_rows h a b s \<noteq> []"
  shows "\<exists>st. calculate_stats fa None h a b s = Inr st
     \<and> (sql_avg fa (window_latencies h a b s) = Some 0 \<longrightarrow> avg_latency st = None)
     \<and> (sql_min (window_latencies h a b s) = Some 0 \<longrightarrow> min_latency st = None)
     \<and> (sql_max (window_latencies h a b s) = Some 0 \<longrightarrow> max_latency st = None)"
  by (simp add: calculate_stats_rows [OF assms] round_if_truthy_simps)

theorem zero_aggregate_is_null_witness:
  "window_rows ''a'' 0 10 c7_zero_store \<noteq> []
   \<and> length (successes (window_rows ''a'' 0 10 c7_zero_store)) = 1
   \<and> sql_avg exact_arith (window_latencies ''a'' 0 10 c7_zero_store) = Some 0
   \<and> sql_min (window_latencies ''a'' 0 10 c7_zero_store) = Some 0
   \<and> sql_max (window_latencies ''a'' 0 10 c7_zero_store) = Some 0
   \<and> (\<exists>st. calculate_stats exact_arith None ''a'' 0 10 c7_zero_store = Inr st
         \<and> avg_latency st = None \<and> min_latency st = None \<and> max_latency st = None)"
proof -
  have some: "window_rows ''a'' 0 10 c7_zero_store \<noteq> []"
    by (simp add: c7_zero_rows)
  have k: "length (successes (window_rows ''a'' 0 10 c7_zero_store)) = 1"
    by (simp add: c7_zero_rows successes_def)
  have avg: "sql_avg exact_arith (window_latencies ''a'' 0 10 c7_zero_store) = Some 0"
    by (simp add: c7_zero_lats sql_avg_def exact_arith_def)
  have mn: "sql_min (window_latencies ''a'' 0 10 c7_zero_store) = Some 0"
    by (simp add: c7_zero_lats sql_min_def)
  have mx: "sql_max (window_latencies ''a'' 0 10 c7_zero_store) = Some 0"
    by (simp add: c7_zero_lats sql_max_def)
  have "\<exists>st. calculate_stats exact_arith None ''a'' 0 10 c7_zero_store = Inr st
         \<and> avg_latency st = None \<and> min_latency st = None \<and> max_latency st = None"
    using zero_aggregate_is_null [OF some, of exact_arith] avg mn mx by blast
  then show ?thesis
    using some k avg mn mx by blast
qed

section \<open>Manual triggers of the cleanup service\<close>

lemma cleanup_now_ok:
  "cleanup_now None None cfg t now svc s =
     ([(''success'', PyBool True),
       (''deleted_count'',
        PyInt (int (length (filter (\<lambda>r. pr_timestamp r < cutoff_time t (retention_days cfg))
                              (ping_results s))))),
       (''timestamp'', PyStr (isoformat now))],
      svc\<lparr>last_cleanup := Some now\<rparr>,
      s\<lparr>ping_results :=
          filter (\<lambda>r. \<not> pr_timestamp r < cutoff_time t (retention_days cfg)) (ping_results s)\<rparr>)"
  by (simp add: cleanup_now_def delete_old_pings_ok)

lemma cleanup_now_fault1:
  "cleanup_now (Some e) f2 cfg t now svc s =
     ([(''success'', PyBool False), (''error'', PyStr (str e)), (''deleted_count'', PyInt 0)],
      svc, s)"
  by (simp add: cleanup_now_def delete_old_pings_def execute_query_def Let_def)

lemma cleanup_now_fault2:
  "cleanup_now None (Some e) cfg t now svc s =
     ([(''success'', PyBool False), (''error'', PyStr (str e)), (''deleted_count'', PyInt 0)],
      svc, s)"
  by (simp add: cleanup_now_def delete_old_pings_def execute_query_def execute_update_def Let_def)

lemma cleanup_now_structured:
  "has_key (fst (cleanup_now f1 f2 cfg t now svc s)) ''success''
   \<and> (if f1 = None \<and> f2 = None
       then map_of (fst (cleanup_now f1 f2 cfg t now svc s)) ''success'' = Some (PyBool True)
            \<and> map_of (fst (cleanup_now f1 f2 cfg t now svc s)) ''timestamp'' =
                Some (PyStr (isoformat now))
            \<and> map_of (fst (cleanup_now f1 f2 cfg t now svc s)) ''deleted_count'' =
                Some (PyInt (int (length (ping_results s))
                   - int (length (ping_results (snd (snd (cleanup_now f1 f2 cfg t now svc s)))))))
            \<and> \<not> has_key (fst (cleanup_now f1 f2 cfg t now svc s)) ''error''
       else map_of (fst (cleanup_now f1 f2 cfg t now svc s)) ''success'' = Some (PyBool False)
            \<and> has_key (fst (cleanup_now f1 f2 cfg t now svc s)) ''error''
            \<and> map_of (fst (cleanup_now f1 f2 cfg t now svc s)) ''deleted_count'' = Some (PyInt 0)
            \<and> \<not> has_key (fst (cleanup_now f1 f2 cfg t now svc s)) ''timestamp'')"
proof (cases f1)
  case (Some e)
  then show ?thesis by (simp add: cleanup_now_fault1 has_key_def)
next
  case None
  show ?thesis
  proof (cases f2)
    case (Some e)
    then show ?thesis using None by (simp add: cleanup_now_fault2 has_key_def)
  next
    case f2: None
    show ?thesis
      unfolding None f2
      using count_removed [of "\<lambda>r. pr_timestamp r < cutoff_time t (retention_days cfg)"
          "ping_results s"]
      by (simp add: cleanup_now_ok has_key_def)
  qed
qed

lemma vacuum_now_structured:
  "has_key (fst (vacuum_now f now svc s)) ''success''
   \<and> (if f = None
       then fst (vacuum_now f now svc s) =
              [(''success'', PyBool True), (''timestamp'', PyStr (isoformat now))]
       else map_of (fst (vacuum_now f now svc s)) ''success'' = Some (PyBool False)
            \<and> has_key (fst (vacuum_now f now svc s)) ''error''
            \<and> \<not> has_key (fst (vacuum_now f now svc s)) ''timestamp'')"
  by (cases f) (simp_all add: vacuum_now_def vacuum_def has_key_def)

text \<open>
  C9, as the claim states it, fails: the dictionary of a failed \<open>cleanup_now\<close> and of a
  failed \<open>vacuum_now\<close> has no \<open>timestamp\<close> key.
\<close>

theorem failed_trigger_has_no_timestamp:
  "\<not> has_key (fst (cleanup_now None (Some io_error) default_settings 0 c9_now c9_service c1_store))
        ''timestamp''
   \<and> \<not> has_key (fst (vacuum_now (Some io_error) c9_now c9_service c1_store)) ''timestamp''"
  by (simp add: cleanup_now_fault2 vacuum_now_def vacuum_def has_key_def)

text \<open>
  C9, amended: \<open>cleanup_now\<close> and \<open>vacuum_now\<close> always return a dictionary with the key
  \<open>success\<close>, whatever the storage does. When no call of the storage faults, \<open>success\<close>
  is true and the dictionary has \<open>timestamp\<close> (for the cleanup also \<open>deleted_count\<close>, the
  number of rows the table lost, and no \<open>error\<close>). When a call faults, \<open>success\<close> is false
  and the dictionary has \<open>error\<close> and no \<open>timestamp\<close> (for the cleanup also
  \<open>deleted_count = 0\<close>).
\<close>

theorem manual_triggers_structured:
  "(has_key (fst (cleanup_now f1 f2 cfg t now svc s)) ''success''
    \<and> (if f1 = None \<and> f2 = None
        then map_of (fst (cleanup_now f1 f2 cfg t now svc s)) ''success'' = Some (PyBool True)
             \<and> map_of (fst (cleanup_now f1 f2 cfg t now svc s)) ''timestamp'' =
                 Some (PyStr (isoformat now))
             \<and> map_of (fst (cleanup_now f1 f2 cfg t now svc s)) ''deleted_count'' =
                 Some (PyInt (int (length (ping_results s))
                    - int (length (ping_results (snd (snd (cleanup_now f1 f2 cfg t now svc s)))))))
             \<and> \<not> has_key (fst (cleanup_now f1 f2 cfg t now svc s)) ''error''
        else map_of (fst (cleanup_now f1 f2 cfg t now svc s)) ''success'' = Some (PyBool False)
             \<and> has_key (fst (cleanup_now f1 f2 cfg t now svc s)) ''error''
             \<and> map_of (fst (cleanup_now f1 f2 cfg t now svc s)) ''deleted_count'' = Some (PyInt 0)
             \<and> \<not> has_key (fst (cleanup_now f1 f2 cfg t now svc s)) ''timestamp''))
   \<and> (has_key (fst (vacuum_now f now svc s)) ''success''
      \<and> (if f = None
          then fst (vacuum_now f now svc s) =
                 [(''success'', PyBool True), (''timestamp'', PyStr (isoformat now))]
          else map_of (fst (vacuum_now f now svc s)) ''success'' = Some (PyBool False)
               \<and> has_key (fst (vacuum_now f now svc s)) ''error''
               \<and> \<not> has_key (fst (vacuum_now f now svc s)) ''timestamp''))"
  using cleanup_now_structured [of f1 f2 cfg t now svc s] vacuum_now_structured [of f now svc s]
  by (rule conjI)

end
